theory Spec2Isabelle
  imports Main "HOL-Library.AList" "HOL-Library.Multiset"
begin

section \<open>Python values\<close>

text \<open>
  The argument of \<open>Asset.set_variants\<close> is an untyped Python dict. Its keys are the
  strings \<open>"width"\<close>, \<open>"height"\<close>, \<open>"jpg"\<close>, \<open>"webp"\<close>, \<open>"avif"\<close> and the integers
  480, 960, 1280, 1920; its values are whatever the caller put there. A dict is an
  association list read through \<open>map_of\<close>.
\<close>

datatype pykey = KStr string | KInt int

datatype pyval =
    PNone
  | PBool bool
  | PInt int
  | PStr string
  | PDict "(pykey \<times> pyval) list"

type_synonym pydict = "(pykey \<times> pyval) list"

datatype error = AttributeError

text \<open>Python truth value, as \<open>or\<close> tests it.\<close>

fun truthy :: "pyval \<Rightarrow> bool" where
  "truthy PNone = False"
| "truthy (PBool b) = b"
| "truthy (PInt n) = (n \<noteq> 0)"
| "truthy (PStr s) = (s \<noteq> [])"
| "truthy (PDict kv) = (kv \<noteq> [])"

text \<open>\<open>x or y\<close>.\<close>

definition py_or :: "pyval \<Rightarrow> pyval \<Rightarrow> pyval" where
  "py_or x y = (if truthy x then x else y)"

text \<open>\<open>variants.get(k)\<close> on a dict: the value, or None for a missing key.\<close>

definition dict_get :: "pydict \<Rightarrow> pykey \<Rightarrow> pyval" where
  "dict_get d k = (case map_of d k of None \<Rightarrow> PNone | Some v \<Rightarrow> v)"

text \<open>
  \<open>d.get(k)\<close> on an arbitrary value: only a dict has the method; on any other object
  the attribute lookup raises AttributeError.
\<close>

fun py_get :: "pyval \<Rightarrow> pykey \<Rightarrow> error + pyval" where
  "py_get (PDict kv) k = Inr (dict_get kv k)"
| "py_get _ k = Inl AttributeError"

section \<open>The Asset class\<close>

type_synonym datetime = int

text \<open>
  One field per \<open>Column\<close> of class \<open>Asset\<close> (\<open>app/models/models.py\<close>), in the order of
  the source. \<open>None\<close> is Python's None (SQL NULL). The fourteen attributes that
  \<open>set_variants\<close> assigns hold whatever object the caller's dict holds, so they are
  Python values; the others are typed by their column type. \<open>id\<close>, \<open>album_id\<close>,
  \<open>size\<close> and \<open>created_at\<close> carry the class name, as in \<open>Asset.album_id\<close>.
\<close>

record asset =
  Asset_id :: "int option"
  Asset_album_id :: "int option"
  sort_order :: "int option"
  filename :: "string option"
  original_name :: "string option"
  mime_type :: "string option"
  Asset_size :: "int option"
  width :: pyval
  height :: pyval
  lqip :: "string option"
  jpg_480 :: pyval
  jpg_960 :: pyval
  jpg_1280 :: pyval
  jpg_1920 :: pyval
  webp_480 :: pyval
  webp_960 :: pyval
  webp_1280 :: pyval
  webp_1920 :: pyval
  avif_480 :: pyval
  avif_960 :: pyval
  avif_1280 :: pyval
  avif_1920 :: pyval
  gdrive_file_id :: "string option"
  gdrive_thumb_id :: "string option"
  is_hidden :: "bool option"
  Asset_created_at :: "datetime option"

text \<open>
  \<open>setattr(self, name, v)\<close> for the names that \<open>set_variants\<close> builds with
  \<open>f"{ext}_480"\<close> and its three siblings. Any other name would add a plain Python
  attribute that is no column; the record has no place for it and is left as it is.
\<close>

definition setattr :: "string \<Rightarrow> pyval \<Rightarrow> asset \<Rightarrow> asset" where
  "setattr name v self =
    (if name = ''jpg_480'' then self\<lparr>jpg_480 := v\<rparr>
     else if name = ''jpg_960'' then self\<lparr>jpg_960 := v\<rparr>
     else if name = ''jpg_1280'' then self\<lparr>jpg_1280 := v\<rparr>
     else if name = ''jpg_1920'' then self\<lparr>jpg_1920 := v\<rparr>
     else if name = ''webp_480'' then self\<lparr>webp_480 := v\<rparr>
     else if name = ''webp_960'' then self\<lparr>webp_960 := v\<rparr>
     else if name = ''webp_1280'' then self\<lparr>webp_1280 := v\<rparr>
     else if name = ''webp_1920'' then self\<lparr>webp_1920 := v\<rparr>
     else if name = ''avif_480'' then self\<lparr>avif_480 := v\<rparr>
     else if name = ''avif_960'' then self\<lparr>avif_960 := v\<rparr>
     else if name = ''avif_1280'' then self\<lparr>avif_1280 := v\<rparr>
     else if name = ''avif_1920'' then self\<lparr>avif_1920 := v\<rparr>
     else self)"

text \<open>
  A statement that may raise, on the object it mutates: the object afterwards together
  with the exception, if any. What was assigned before a raise stays assigned.
\<close>

type_synonym outcome = "asset \<times> error option"

text \<open>\<open>setattr(self, f"{ext}_<bp>", d.get(<bp>))\<close>: the argument is evaluated first.\<close>

definition assign_get :: "string \<Rightarrow> string \<Rightarrow> int \<Rightarrow> pyval \<Rightarrow> asset \<Rightarrow> outcome" where
  "assign_get ext suffix bp d self =
    (case py_get d (KInt bp) of
       Inl e \<Rightarrow> (self, Some e)
     | Inr v \<Rightarrow> (setattr (ext @ suffix) v self, None))"

text \<open>Sequencing: the next statement runs only if the previous one did not raise.\<close>

definition and_then :: "outcome \<Rightarrow> (asset \<Rightarrow> outcome) \<Rightarrow> outcome" where
  "and_then r f = (case r of (self, None) \<Rightarrow> f self | (self, Some e) \<Rightarrow> (self, Some e))"

text \<open>The body of the \<open>for ext in ("jpg", "webp", "avif")\<close> loop.\<close>

definition loop_body :: "pydict \<Rightarrow> string \<Rightarrow> asset \<Rightarrow> outcome" where
  "loop_body variants ext self =
    (let d = py_or (dict_get variants (KStr ext)) (PDict []) in
     and_then (and_then (and_then
       (assign_get ext ''_480'' 480 d self)
       (assign_get ext ''_960'' 960 d))
       (assign_get ext ''_1280'' 1280 d))
       (assign_get ext ''_1920'' 1920 d))"

fun for_ext :: "string list \<Rightarrow> pydict \<Rightarrow> asset \<Rightarrow> outcome" where
  "for_ext [] variants self = (self, None)"
| "for_ext (ext # rest) variants self =
     and_then (loop_body variants ext self) (for_ext rest variants)"

definition set_variants :: "asset \<Rightarrow> pydict \<Rightarrow> outcome" where
  "set_variants self variants =
    (let self = self\<lparr>width := dict_get variants (KStr ''width'')\<rparr>;
         self = self\<lparr>height := dict_get variants (KStr ''height'')\<rparr>
     in for_ext [''jpg'', ''webp'', ''avif''] variants self)"


section \<open>The declared schema\<close>

text \<open>
  The model classes are declarations: each \<open>Column(...)\<close> and \<open>relationship(...)\<close>
  call is kept as data, with the arguments the source writes and \<open>None\<close> (or
  \<open>False\<close>) for a keyword argument it leaves out.
\<close>

datatype coltype = Integer | String "nat option" | DateTime | Boolean | Text

record foreign_key =
  fk_target :: string
  fk_ondelete :: "string option"

record column =
  col_name :: string
  col_type :: coltype
  col_foreign_key :: "foreign_key option"
  col_primary_key :: bool
  col_nullable :: "bool option"
  col_unique :: bool
  col_index :: bool
  col_default :: "string option"

record relationship =
  rel_name :: string
  rel_target :: string
  rel_back_populates :: "string option"
  rel_cascade :: "string option"
  rel_passive_deletes :: bool
  rel_foreign_keys :: "string option"
  rel_order_by :: "string option"
  rel_uselist :: "bool option"
  rel_post_update :: bool

record model_class =
  tablename :: string
  columns :: "column list"
  relationships :: "relationship list"

definition Column :: "string \<Rightarrow> coltype \<Rightarrow> column" where
  "Column n t = \<lparr>col_name = n, col_type = t, col_foreign_key = None,
     col_primary_key = False, col_nullable = None, col_unique = False,
     col_index = False, col_default = None\<rparr>"

definition ForeignKey :: "string \<Rightarrow> string \<Rightarrow> foreign_key option" where
  "ForeignKey target action = Some \<lparr>fk_target = target, fk_ondelete = Some action\<rparr>"

definition relationship :: "string \<Rightarrow> string \<Rightarrow> relationship" where
  "relationship n target = \<lparr>rel_name = n, rel_target = target,
     rel_back_populates = None, rel_cascade = None, rel_passive_deletes = False,
     rel_foreign_keys = None, rel_order_by = None, rel_uselist = None,
     rel_post_update = False\<rparr>"

text \<open>\<open>class Album\<close> of \<open>app/models/models.py\<close>.\<close>

definition Album :: model_class where
  "Album = \<lparr>tablename = ''albums'',
     columns =
      [(Column ''id'' Integer)\<lparr>col_primary_key := True, col_index := True\<rparr>,
       (Column ''title'' (String None))\<lparr>col_nullable := Some False\<rparr>,
       (Column ''photographer'' (String None))\<lparr>col_nullable := Some True\<rparr>,
       (Column ''photographer_url'' (String (Some 255)))\<lparr>col_nullable := Some True\<rparr>,
       (Column ''event_date'' DateTime)\<lparr>col_nullable := Some True\<rparr>,
       (Column ''created_at'' DateTime)\<lparr>col_default := Some ''datetime.utcnow''\<rparr>,
       (Column ''cover_asset_id'' Integer)
         \<lparr>col_foreign_key := ForeignKey ''assets.id'' ''SET NULL'',
          col_nullable := Some True, col_index := True\<rparr>],
     relationships =
      [(relationship ''cover_asset'' ''Asset'')
         \<lparr>rel_foreign_keys := Some ''cover_asset_id'', rel_uselist := Some False,
          rel_post_update := True\<rparr>,
       (relationship ''assets'' ''Asset'')
         \<lparr>rel_back_populates := Some ''album'',
          rel_cascade := Some ''all, delete-orphan'', rel_passive_deletes := True,
          rel_foreign_keys := Some ''Asset.album_id'',
          rel_order_by := Some ''Asset.sort_order''\<rparr>,
       (relationship ''shares'' ''ShareLink'')
         \<lparr>rel_back_populates := Some ''album'',
          rel_cascade := Some ''all, delete-orphan'', rel_passive_deletes := True\<rparr>]\<rparr>"

text \<open>
  \<open>class Album\<close> of \<open>app/models/album.py\<close>, the file the scaffold script writes: the
  same table name, two \<open>mapped_column\<close>s and no relationship.
\<close>

definition Album_album_py :: model_class where
  "Album_album_py = \<lparr>tablename = ''albums'',
     columns =
      [(Column ''id'' Integer)\<lparr>col_primary_key := True, col_index := True\<rparr>,
       (Column ''title'' (String (Some 200)))\<lparr>col_index := True\<rparr>],
     relationships = []\<rparr>"

definition ShareLink :: model_class where
  "ShareLink = \<lparr>tablename = ''share_links'',
     columns =
      [(Column ''id'' Integer)\<lparr>col_primary_key := True, col_index := True\<rparr>,
       (Column ''album_id'' Integer)
         \<lparr>col_foreign_key := ForeignKey ''albums.id'' ''CASCADE'', col_index := True\<rparr>,
       (Column ''slug'' (String None))\<lparr>col_unique := True, col_index := True\<rparr>,
       (Column ''expires_at'' DateTime)\<lparr>col_nullable := Some True\<rparr>,
       (Column ''password_hash'' (String None))\<lparr>col_nullable := Some True\<rparr>,
       (Column ''allow_zip'' Boolean)\<lparr>col_default := Some ''True''\<rparr>,
       (Column ''created_at'' DateTime)\<lparr>col_default := Some ''datetime.utcnow''\<rparr>],
     relationships =
      [(relationship ''album'' ''Album'')\<lparr>rel_back_populates := Some ''shares''\<rparr>]\<rparr>"

definition Asset :: model_class where
  "Asset = \<lparr>tablename = ''assets'',
     columns =
      [(Column ''id'' Integer)\<lparr>col_primary_key := True, col_index := True\<rparr>,
       (Column ''album_id'' Integer)
         \<lparr>col_foreign_key := ForeignKey ''albums.id'' ''CASCADE'', col_index := True\<rparr>,
       (Column ''sort_order'' Integer)\<lparr>col_nullable := Some True\<rparr>,
       (Column ''filename'' (String (Some 255)))\<lparr>col_nullable := Some False\<rparr>,
       (Column ''original_name'' (String (Some 255)))\<lparr>col_nullable := Some False\<rparr>,
       (Column ''mime_type'' (String (Some 128)))\<lparr>col_nullable := Some True\<rparr>,
       (Column ''size'' Integer)\<lparr>col_nullable := Some True\<rparr>,
       (Column ''width'' Integer)\<lparr>col_nullable := Some True\<rparr>,
       (Column ''height'' Integer)\<lparr>col_nullable := Some True\<rparr>,
       (Column ''lqip'' Text)\<lparr>col_nullable := Some True\<rparr>,
       (Column ''jpg_480'' (String (Some 255)))\<lparr>col_nullable := Some True\<rparr>,
       (Column ''jpg_960'' (String (Some 255)))\<lparr>col_nullable := Some True\<rparr>,
       (Column ''jpg_1280'' (String (Some 255)))\<lparr>col_nullable := Some True\<rparr>,
       (Column ''jpg_1920'' (String (Some 255)))\<lparr>col_nullable := Some True\<rparr>,
       (Column ''webp_480'' (String (Some 255)))\<lparr>col_nullable := Some True\<rparr>,
       (Column ''webp_960'' (String (Some 255)))\<lparr>col_nullable := Some True\<rparr>,
       (Column ''webp_1280'' (String (Some 255)))\<lparr>col_nullable := Some True\<rparr>,
       (Column ''webp_1920'' (String (Some 255)))\<lparr>col_nullable := Some True\<rparr>,
       (Column ''avif_480'' (String (Some 255)))\<lparr>col_nullable := Some True\<rparr>,
       (Column ''avif_960'' (String (Some 255)))\<lparr>col_nullable := Some True\<rparr>,
       (Column ''avif_1280'' (String (Some 255)))\<lparr>col_nullable := Some True\<rparr>,
       (Column ''avif_1920'' (String (Some 255)))\<lparr>col_nullable := Some True\<rparr>,
       (Column ''gdrive_file_id'' (String (Some 255)))\<lparr>col_nullable := Some True\<rparr>,
       (Column ''gdrive_thumb_id'' (String (Some 255)))\<lparr>col_nullable := Some True\<rparr>,
       (Column ''is_hidden'' Boolean)\<lparr>col_default := Some ''False''\<rparr>,
       (Column ''created_at'' DateTime)
         \<lparr>col_default := Some ''datetime.utcnow'', col_index := True\<rparr>],
     relationships =
      [(relationship ''album'' ''Album'')
         \<lparr>rel_back_populates := Some ''assets'',
          rel_foreign_keys := Some ''album_id''\<rparr>]\<rparr>"

definition Like :: model_class where
  "Like = \<lparr>tablename = ''likes'',
     columns =
      [(Column ''id'' Integer)\<lparr>col_primary_key := True, col_index := True\<rparr>,
       (Column ''url'' (String None))\<lparr>col_index := True\<rparr>,
       (Column ''user_id'' Integer)\<lparr>col_nullable := Some True\<rparr>,
       (Column ''liked'' Boolean)\<lparr>col_default := Some ''True''\<rparr>,
       (Column ''created_at'' DateTime)\<lparr>col_default := Some ''datetime.utcnow''\<rparr>],
     relationships = []\<rparr>"

text \<open>The instances of the other mapped classes: one field per column.\<close>

record album =
  Album_id :: "int option"
  title :: "string option"
  photographer :: "string option"
  photographer_url :: "string option"
  event_date :: "datetime option"
  Album_created_at :: "datetime option"
  cover_asset_id :: "int option"

record share_link =
  ShareLink_id :: "int option"
  ShareLink_album_id :: "int option"
  slug :: "string option"
  expires_at :: "datetime option"
  password_hash :: "string option"
  allow_zip :: "bool option"
  ShareLink_created_at :: "datetime option"

record like =
  Like_id :: "int option"
  url :: "string option"
  user_id :: "int option"
  liked :: "bool option"
  Like_created_at :: "datetime option"

section \<open>The storage engine\<close>

text \<open>
  Modelled from the spec: the storage layer that holds the rows and executes inserts,
  deletes and relationship loads is no part of the model module (it imports \<open>Base\<close>
  from \<open>app/models/database.py\<close>, which is not in the snapshot, and the engine behind
  it is a collaborator). What the declarations mean to that layer is taken from the
  specification: "integrity violation: unique constraint, not-null constraint,
  surfaced to the caller as a rejected write", "reference error: a write referencing
  a nonexistent Album/Asset id, surfaced as a rejected write", "cascade-delete:
  removing a parent row automatically removes all rows that reference it",
  "set-null-on-delete: removing a referenced row clears (nulls) the referencing column
  instead of deleting the referencer or blocking the delete", "surrogate integer
  keys, system-assigned", "created_at is set once at row-creation time", "Assets are
  retrieved in ascending sort_order; unordered assets sort according to storage
  default". Which column carries which constraint and which action is read from the
  declarations above.
\<close>

record db =
  albums :: "album list"
  assets :: "asset list"
  share_links :: "share_link list"
  likes :: "like list"

definition empty_db :: db where
  "empty_db = \<lparr>albums = [], assets = [], share_links = [], likes = []\<rparr>"

datatype violation =
    NotNull string string
  | Unique string string
  | ForeignKeyViolation string string

datatype db_error = IntegrityError violation

subsection \<open>Reading the declarations\<close>

text \<open>
  A column that does not say \<open>nullable=\<close> is nullable unless it is the primary key
  (the default of \<open>Column\<close>).
\<close>

definition nullable :: "column \<Rightarrow> bool" where
  "nullable c = (case col_nullable c of Some b \<Rightarrow> b | None \<Rightarrow> \<not> col_primary_key c)"

datatype ondelete = CASCADE | SET_NULL | NO_ACTION

definition referential_action :: "string option \<Rightarrow> ondelete" where
  "referential_action od =
    (if od = Some ''CASCADE'' then CASCADE
     else if od = Some ''SET NULL'' then SET_NULL
     else NO_ACTION)"

definition fk_action :: "model_class \<Rightarrow> string \<Rightarrow> ondelete" where
  "fk_action cls name =
    (case find (\<lambda>c. col_name c = name) (columns cls) of
       None \<Rightarrow> NO_ACTION
     | Some c \<Rightarrow> (case col_foreign_key c of
                   None \<Rightarrow> NO_ACTION
                 | Some fk \<Rightarrow> referential_action (fk_ondelete fk)))"

record fk_actions =
  on_assets_album_id :: ondelete
  on_share_links_album_id :: ondelete
  on_albums_cover_asset_id :: ondelete

definition declared_actions :: fk_actions where
  "declared_actions =
    \<lparr>on_assets_album_id = fk_action Asset ''album_id'',
     on_share_links_album_id = fk_action ShareLink ''album_id'',
     on_albums_cover_asset_id = fk_action Album ''cover_asset_id''\<rparr>"

subsection \<open>Column values of a row\<close>

fun of_int_opt :: "int option \<Rightarrow> pyval" where
  "of_int_opt None = PNone"
| "of_int_opt (Some n) = PInt n"

fun of_str_opt :: "string option \<Rightarrow> pyval" where
  "of_str_opt None = PNone"
| "of_str_opt (Some s) = PStr s"

fun of_bool_opt :: "bool option \<Rightarrow> pyval" where
  "of_bool_opt None = PNone"
| "of_bool_opt (Some b) = PBool b"

text \<open>\<open>getattr(row, name)\<close> for a column name; None for a name that is no column.\<close>

definition Album_getattr :: "album \<Rightarrow> string \<Rightarrow> pyval" where
  "Album_getattr r name =
    (if name = ''id'' then of_int_opt (Album_id r)
     else if name = ''title'' then of_str_opt (title r)
     else if name = ''photographer'' then of_str_opt (photographer r)
     else if name = ''photographer_url'' then of_str_opt (photographer_url r)
     else if name = ''event_date'' then of_int_opt (event_date r)
     else if name = ''created_at'' then of_int_opt (Album_created_at r)
     else if name = ''cover_asset_id'' then of_int_opt (cover_asset_id r)
     else PNone)"

definition ShareLink_getattr :: "share_link \<Rightarrow> string \<Rightarrow> pyval" where
  "ShareLink_getattr r name =
    (if name = ''id'' then of_int_opt (ShareLink_id r)
     else if name = ''album_id'' then of_int_opt (ShareLink_album_id r)
     else if name = ''slug'' then of_str_opt (slug r)
     else if name = ''expires_at'' then of_int_opt (expires_at r)
     else if name = ''password_hash'' then of_str_opt (password_hash r)
     else if name = ''allow_zip'' then of_bool_opt (allow_zip r)
     else if name = ''created_at'' then of_int_opt (ShareLink_created_at r)
     else PNone)"

definition Asset_getattr :: "asset \<Rightarrow> string \<Rightarrow> pyval" where
  "Asset_getattr r name =
    (if name = ''id'' then of_int_opt (Asset_id r)
     else if name = ''album_id'' then of_int_opt (Asset_album_id r)
     else if name = ''sort_order'' then of_int_opt (sort_order r)
     else if name = ''filename'' then of_str_opt (filename r)
     else if name = ''original_name'' then of_str_opt (original_name r)
     else if name = ''mime_type'' then of_str_opt (mime_type r)
     else if name = ''size'' then of_int_opt (Asset_size r)
     else if name = ''width'' then width r
     else if name = ''height'' then height r
     else if name = ''lqip'' then of_str_opt (lqip r)
     else if name = ''jpg_480'' then jpg_480 r
     else if name = ''jpg_960'' then jpg_960 r
     else if name = ''jpg_1280'' then jpg_1280 r
     else if name = ''jpg_1920'' then jpg_1920 r
     else if name = ''webp_480'' then webp_480 r
     else if name = ''webp_960'' then webp_960 r
     else if name = ''webp_1280'' then webp_1280 r
     else if name = ''webp_1920'' then webp_1920 r
     else if name = ''avif_480'' then avif_480 r
     else if name = ''avif_960'' then avif_960 r
     else if name = ''avif_1280'' then avif_1280 r
     else if name = ''avif_1920'' then avif_1920 r
     else if name = ''gdrive_file_id'' then of_str_opt (gdrive_file_id r)
     else if name = ''gdrive_thumb_id'' then of_str_opt (gdrive_thumb_id r)
     else if name = ''is_hidden'' then of_bool_opt (is_hidden r)
     else if name = ''created_at'' then of_int_opt (Asset_created_at r)
     else PNone)"

subsection \<open>Constraints checked by an insert\<close>

text \<open>
  The first declared column that is not nullable and has no value in the row, and the
  first declared primary-key or unique column whose value the row shares with a stored
  row. A null is no value: it never collides.
\<close>

definition not_null_violation :: "model_class \<Rightarrow> (string \<Rightarrow> pyval) \<Rightarrow> violation option" where
  "not_null_violation cls row =
    (case find (\<lambda>c. \<not> nullable c \<and> row (col_name c) = PNone) (columns cls) of
       None \<Rightarrow> None
     | Some c \<Rightarrow> Some (NotNull (tablename cls) (col_name c)))"

definition unique_violation ::
    "model_class \<Rightarrow> (string \<Rightarrow> pyval) \<Rightarrow> (string \<Rightarrow> pyval) list \<Rightarrow> violation option" where
  "unique_violation cls row stored =
    (case find (\<lambda>c. (col_primary_key c \<or> col_unique c) \<and> row (col_name c) \<noteq> PNone \<and>
                     list_ex (\<lambda>r. r (col_name c) = row (col_name c)) stored) (columns cls) of
       None \<Rightarrow> None
     | Some c \<Rightarrow> Some (Unique (tablename cls) (col_name c)))"

text \<open>A foreign key with a value must name a stored row; a null one refers to nothing.\<close>

fun refers :: "int option \<Rightarrow> int list \<Rightarrow> bool" where
  "refers None keys = False"
| "refers (Some k) keys = (k \<in> set keys)"

definition reference_violation ::
    "string \<Rightarrow> string \<Rightarrow> int option \<Rightarrow> int list \<Rightarrow> violation option" where
  "reference_violation table name v keys =
    (if v = None \<or> refers v keys then None else Some (ForeignKeyViolation table name))"

text \<open>A system-assigned key: above every key the table holds.\<close>

definition fresh_id :: "int list \<Rightarrow> int" where
  "fresh_id keys = fold max keys 0 + 1"

definition or_default :: "'a option \<Rightarrow> 'a \<Rightarrow> 'a option" where
  "or_default v d = (case v of None \<Rightarrow> Some d | Some x \<Rightarrow> Some x)"

definition first_violation :: "violation option list \<Rightarrow> violation option" where
  "first_violation vs = (case List.map_filter id vs of [] \<Rightarrow> None | v # _ \<Rightarrow> Some v)"

definition insert_album :: "datetime \<Rightarrow> album \<Rightarrow> db \<Rightarrow> db_error + db" where
  "insert_album now r s =
    (let r = r\<lparr>Album_id := or_default (Album_id r) (fresh_id (List.map_filter Album_id (albums s))),
                Album_created_at := or_default (Album_created_at r) now\<rparr>
     in case first_violation
          [not_null_violation Album (Album_getattr r),
           unique_violation Album (Album_getattr r) (map Album_getattr (albums s)),
           reference_violation ''albums'' ''cover_asset_id'' (cover_asset_id r)
             (List.map_filter Asset_id (assets s))] of
          Some v \<Rightarrow> Inl (IntegrityError v)
        | None \<Rightarrow> Inr (s\<lparr>albums := albums s @ [r]\<rparr>))"

definition insert_share_link :: "datetime \<Rightarrow> share_link \<Rightarrow> db \<Rightarrow> db_error + db" where
  "insert_share_link now r s =
    (let r = r\<lparr>ShareLink_id :=
                  or_default (ShareLink_id r) (fresh_id (List.map_filter ShareLink_id (share_links s))),
                allow_zip := or_default (allow_zip r) True,
                ShareLink_created_at := or_default (ShareLink_created_at r) now\<rparr>
     in case first_violation
          [not_null_violation ShareLink (ShareLink_getattr r),
           unique_violation ShareLink (ShareLink_getattr r) (map ShareLink_getattr (share_links s)),
           reference_violation ''share_links'' ''album_id'' (ShareLink_album_id r)
             (List.map_filter Album_id (albums s))] of
          Some v \<Rightarrow> Inl (IntegrityError v)
        | None \<Rightarrow> Inr (s\<lparr>share_links := share_links s @ [r]\<rparr>))"

definition insert_asset :: "datetime \<Rightarrow> asset \<Rightarrow> db \<Rightarrow> db_error + db" where
  "insert_asset now r s =
    (let r = r\<lparr>Asset_id := or_default (Asset_id r) (fresh_id (List.map_filter Asset_id (assets s))),
                is_hidden := or_default (is_hidden r) False,
                Asset_created_at := or_default (Asset_created_at r) now\<rparr>
     in case first_violation
          [not_null_violation Asset (Asset_getattr r),
           unique_violation Asset (Asset_getattr r) (map Asset_getattr (assets s)),
           reference_violation ''assets'' ''album_id'' (Asset_album_id r)
             (List.map_filter Album_id (albums s))] of
          Some v \<Rightarrow> Inl (IntegrityError v)
        | None \<Rightarrow> Inr (s\<lparr>assets := assets s @ [r]\<rparr>))"

subsection \<open>Deleting rows\<close>

text \<open>
  What a foreign key does to the rows of a table that nothing references, when rows it
  points to are removed.
\<close>

definition on_delete_leaf ::
    "ondelete \<Rightarrow> violation \<Rightarrow> ('r \<Rightarrow> bool) \<Rightarrow> ('r \<Rightarrow> 'r) \<Rightarrow> 'r list \<Rightarrow> db_error + 'r list" where
  "on_delete_leaf action v referencing clear rows =
    (case action of
       CASCADE \<Rightarrow> Inr (filter (\<lambda>r. \<not> referencing r) rows)
     | SET_NULL \<Rightarrow> Inr (map (\<lambda>r. if referencing r then clear r else r) rows)
     | NO_ACTION \<Rightarrow> if list_ex referencing rows then Inl (IntegrityError v) else Inr rows)"

text \<open>
  Removing the albums (assets) that satisfy \<open>P\<close>, with the action of every foreign key
  that points to the table. A cascade removes the referencing rows by the same
  procedure, so the two tables, which reference each other, recurse into each other;
  every recursive call is on a store that has lost a row. A violation aborts the
  whole delete and nothing is stored (the transaction is rolled back).
\<close>

function delete_albums :: "fk_actions \<Rightarrow> (album \<Rightarrow> bool) \<Rightarrow> db \<Rightarrow> db_error + db"
  and delete_assets :: "fk_actions \<Rightarrow> (asset \<Rightarrow> bool) \<Rightarrow> db \<Rightarrow> db_error + db" where
  "delete_albums fk P s =
    (if filter P (albums s) = [] then Inr s
     else
       let keys = List.map_filter Album_id (filter P (albums s));
           s1 = s\<lparr>albums := filter (\<lambda>a. \<not> P a) (albums s)\<rparr>
       in case on_delete_leaf (on_share_links_album_id fk)
                 (ForeignKeyViolation ''share_links'' ''album_id'')
                 (\<lambda>l. refers (ShareLink_album_id l) keys)
                 (\<lambda>l. l\<lparr>ShareLink_album_id := None\<rparr>) (share_links s1) of
            Inl e \<Rightarrow> Inl e
          | Inr links \<Rightarrow>
             (case on_assets_album_id fk of
                CASCADE \<Rightarrow>
                  delete_assets fk (\<lambda>x. refers (Asset_album_id x) keys)
                    (s1\<lparr>share_links := links\<rparr>)
              | SET_NULL \<Rightarrow>
                  Inr (s1\<lparr>share_links := links,
                          assets := map (\<lambda>x. if refers (Asset_album_id x) keys
                                               then x\<lparr>Asset_album_id := None\<rparr> else x)
                                        (assets s1)\<rparr>)
              | NO_ACTION \<Rightarrow>
                  if list_ex (\<lambda>x. refers (Asset_album_id x) keys) (assets s1)
                  then Inl (IntegrityError (ForeignKeyViolation ''assets'' ''album_id''))
                  else Inr (s1\<lparr>share_links := links\<rparr>)))"
| "delete_assets fk P s =
    (if filter P (assets s) = [] then Inr s
     else
       let keys = List.map_filter Asset_id (filter P (assets s));
           s1 = s\<lparr>assets := filter (\<lambda>x. \<not> P x) (assets s)\<rparr>
       in case on_albums_cover_asset_id fk of
            CASCADE \<Rightarrow> delete_albums fk (\<lambda>a. refers (cover_asset_id a) keys) s1
          | SET_NULL \<Rightarrow>
              Inr (s1\<lparr>albums := map (\<lambda>a. if refers (cover_asset_id a) keys
                                          then a\<lparr>cover_asset_id := None\<rparr> else a)
                                   (albums s1)\<rparr>)
          | NO_ACTION \<Rightarrow>
              if list_ex (\<lambda>a. refers (cover_asset_id a) keys) (albums s1)
              then Inl (IntegrityError (ForeignKeyViolation ''albums'' ''cover_asset_id''))
              else Inr s1)"
  by pat_completeness auto

termination
proof -
  have shrinks: "length (filter (\<lambda>x. \<not> P x) xs) < length xs"
    if "filter P xs \<noteq> []" for P :: "'a \<Rightarrow> bool" and xs
    using that by (induction xs) (auto simp: less_Suc_eq_le)
  show ?thesis
    apply (relation "measure (\<lambda>x. case x of
        Inl (fk, P, s) \<Rightarrow> length (albums s) + length (assets s)
      | Inr (fk, P, s) \<Rightarrow> length (albums s) + length (assets s))")
      apply (auto simp: shrinks)
    done
qed

declare delete_albums.simps [simp del] delete_assets.simps [simp del]

text \<open>Deleting one row by its key, under the declared actions.\<close>

definition delete_album :: "int \<Rightarrow> db \<Rightarrow> db_error + db" where
  "delete_album k s = delete_albums declared_actions (\<lambda>a. Album_id a = Some k) s"

definition delete_asset :: "int \<Rightarrow> db \<Rightarrow> db_error + db" where
  "delete_asset k s = delete_assets declared_actions (\<lambda>x. Asset_id x = Some k) s"

definition delete_share_link :: "int \<Rightarrow> db \<Rightarrow> db_error + db" where
  "delete_share_link k s =
     Inr (s\<lparr>share_links := filter (\<lambda>l. ShareLink_id l \<noteq> Some k) (share_links s)\<rparr>)"

subsection \<open>Loading a relationship\<close>

text \<open>
  The integer column an \<open>order_by\<close> string names, for the strings the declarations use.
\<close>

definition Asset_order_key :: "string \<Rightarrow> asset \<Rightarrow> int option" where
  "Asset_order_key name x =
    (if name = ''Asset.sort_order'' then sort_order x
     else if name = ''Asset.id'' then Asset_id x
     else None)"

text \<open>
  Ascending order on a nullable key. Where the rows without a key go is the storage
  default, a parameter: before the others (\<open>nulls_first\<close>) or after them.
\<close>

definition key_value :: "('r \<Rightarrow> int option) \<Rightarrow> 'r \<Rightarrow> int" where
  "key_value key r = (case key r of Some n \<Rightarrow> n | None \<Rightarrow> 0)"

definition order_rows :: "bool \<Rightarrow> ('r \<Rightarrow> int option) \<Rightarrow> 'r list \<Rightarrow> 'r list" where
  "order_rows nulls_first key rows =
    (let without = filter (\<lambda>r. key r = None) rows;
         ordered = sort_key (key_value key) (filter (\<lambda>r. key r \<noteq> None) rows)
     in if nulls_first then without @ ordered else ordered @ without)"

definition find_relationship :: "model_class \<Rightarrow> string \<Rightarrow> relationship option" where
  "find_relationship cls name = find (\<lambda>r. rel_name r = name) (relationships cls)"

text \<open>\<open>album.assets\<close>, loaded from the store for the album with key \<open>k\<close>.\<close>

definition Album_assets :: "bool \<Rightarrow> db \<Rightarrow> int \<Rightarrow> asset list" where
  "Album_assets nulls_first s k =
    (let rows = filter (\<lambda>x. Asset_album_id x = Some k) (assets s)
     in case find_relationship Album ''assets'' of
          None \<Rightarrow> rows
        | Some rel \<Rightarrow>
           (case rel_order_by rel of
              None \<Rightarrow> rows
            | Some name \<Rightarrow> order_rows nulls_first (Asset_order_key name) rows))"

subsection \<open>Histories\<close>

text \<open>
  The writes the surrounding layer issues, one transaction each: a rejected write
  leaves the store as it was.
\<close>

datatype op =
    InsertAlbum album
  | InsertAsset asset
  | InsertShareLink share_link
  | DeleteAlbum int
  | DeleteAsset int
  | DeleteShareLink int

fun apply_op :: "datetime \<Rightarrow> op \<Rightarrow> db \<Rightarrow> db_error + db" where
  "apply_op now (InsertAlbum r) s = insert_album now r s"
| "apply_op now (InsertAsset r) s = insert_asset now r s"
| "apply_op now (InsertShareLink r) s = insert_share_link now r s"
| "apply_op now (DeleteAlbum k) s = delete_album k s"
| "apply_op now (DeleteAsset k) s = delete_asset k s"
| "apply_op now (DeleteShareLink k) s = delete_share_link k s"

fun run :: "db \<Rightarrow> (datetime \<times> op) list \<Rightarrow> db" where
  "run s [] = s"
| "run s ((now, x) # rest) =
     (case apply_op now x s of Inl e \<Rightarrow> run s rest | Inr s' \<Rightarrow> run s' rest)"

section \<open>What the input of \<open>set_variants\<close> supplies\<close>

text \<open>
  Written from the specification's description of the input, to state the guarantee
  against: the value the mapping gives for a top-level key (null when the key is
  absent), and the path it gives for an encoding at a breakpoint (null when the
  breakpoint is absent from the nested mapping or the encoding has no nested mapping).
\<close>

definition supplied_value :: "pydict \<Rightarrow> string \<Rightarrow> pyval" where
  "supplied_value variants key =
    (case map_of variants (KStr key) of Some v \<Rightarrow> v | None \<Rightarrow> PNone)"

definition supplied_path :: "pydict \<Rightarrow> string \<Rightarrow> int \<Rightarrow> pyval" where
  "supplied_path variants ext bp =
    (case map_of variants (KStr ext) of
       Some (PDict kv) \<Rightarrow> (case map_of kv (KInt bp) of Some v \<Rightarrow> v | None \<Rightarrow> PNone)
     | _ \<Rightarrow> PNone)"

text \<open>
  The shape of input the specification describes: what stands under an encoding name
  is a nested mapping, or nothing (the key is absent, or its value is None or another
  value that \<open>or\<close> replaces by the empty dict).
\<close>

definition nested_ok :: "pyval \<Rightarrow> bool" where
  "nested_ok v = (case v of PDict kv \<Rightarrow> True | _ \<Rightarrow> \<not> truthy v)"

definition well_shaped :: "pydict \<Rightarrow> bool" where
  "well_shaped variants =
     (\<forall>ext \<in> set [''jpg'', ''webp'', ''avif'']. nested_ok (dict_get variants (KStr ext)))"

text \<open>\<open>Asset()\<close> with no keyword argument: every column attribute reads None.\<close>

definition Asset_init :: asset where
  "Asset_init = \<lparr>Asset_id = None, Asset_album_id = None, sort_order = None,
     filename = None, original_name = None, mime_type = None, Asset_size = None,
     width = PNone, height = PNone, lqip = None,
     jpg_480 = PNone, jpg_960 = PNone, jpg_1280 = PNone, jpg_1920 = PNone,
     webp_480 = PNone, webp_960 = PNone, webp_1280 = PNone, webp_1920 = PNone,
     avif_480 = PNone, avif_960 = PNone, avif_1280 = PNone, avif_1920 = PNone,
     gdrive_file_id = None, gdrive_thumb_id = None, is_hidden = None,
     Asset_created_at = None\<rparr>"

section \<open>Store invariants\<close>

text \<open>The slugs that stored ShareLink rows carry, nulls left out, are pairwise different.\<close>

definition slugs_unique :: "db \<Rightarrow> bool" where
  "slugs_unique s = distinct (List.map_filter slug (share_links s))"

section \<open>Properties of \<open>set_variants\<close>\<close>

text \<open>
  After \<open>or {}\<close> the value under an encoding name is a dict, or an object without
  \<open>get\<close>, on which every call of the method raises.
\<close>

lemma py_or_cases:
  "(\<exists>kv. py_or v (PDict []) = PDict kv) \<or>
   (\<forall>k. py_get (py_or v (PDict [])) k = Inl AttributeError)"
  by (cases v) (auto simp: py_or_def)

lemma loop_body_dict:
  "py_or (dict_get variants (KStr ext)) (PDict []) = PDict kv \<Longrightarrow>
   loop_body variants ext self =
     (setattr (ext @ ''_1920'') (dict_get kv (KInt 1920))
       (setattr (ext @ ''_1280'') (dict_get kv (KInt 1280))
         (setattr (ext @ ''_960'') (dict_get kv (KInt 960))
           (setattr (ext @ ''_480'') (dict_get kv (KInt 480)) self))), None)"
  by (simp add: loop_body_def assign_get_def and_then_def)

lemma loop_body_raise:
  "\<forall>k. py_get (py_or (dict_get variants (KStr ext)) (PDict [])) k = Inl AttributeError \<Longrightarrow>
   loop_body variants ext self = (self, Some AttributeError)"
  by (simp add: loop_body_def assign_get_def and_then_def)

lemma nested_ok_dict:
  "nested_ok (dict_get variants (KStr ext)) \<Longrightarrow>
   \<exists>kv. py_or (dict_get variants (KStr ext)) (PDict []) = PDict kv \<and>
        (\<forall>bp. dict_get kv (KInt bp) = supplied_path variants ext bp)"
  by (cases "map_of variants (KStr ext)"; cases "dict_get variants (KStr ext)")
     (auto simp: nested_ok_def py_or_def dict_get_def supplied_path_def
           split: option.splits pyval.splits)

lemma dict_get_supplied_value: "dict_get variants (KStr key) = supplied_value variants key"
  by (simp add: dict_get_def supplied_value_def)

lemma dict_get_update_None:
  "dict_get (AList.update k PNone d) k' = dict_get (AList.delete k d) k'"
  by (simp add: dict_get_def update_conv' delete_conv')

lemma loop_body_update_None:
  "loop_body (AList.update k PNone d) ext self = loop_body (AList.delete k d) ext self"
  by (simp add: loop_body_def dict_get_update_None)

lemma for_ext_update_None:
  "for_ext exts (AList.update k PNone d) self = for_ext exts (AList.delete k d) self"
proof (induction exts arbitrary: self)
  case Nil
  show ?case by simp
next
  case (Cons ext exts)
  have "for_ext exts (AList.update k PNone d) = for_ext exts (AList.delete k d)"
    using Cons.IH by blast
  then show ?case by (simp add: loop_body_update_None)
qed


text \<open>The whole effect of a call on well-shaped input, as one record update.\<close>

lemma set_variants_well_shaped:
  assumes "well_shaped variants"
  shows "set_variants self variants =
    (self\<lparr>width := supplied_value variants ''width'',
          height := supplied_value variants ''height'',
          jpg_480 := supplied_path variants ''jpg'' 480,
          jpg_960 := supplied_path variants ''jpg'' 960,
          jpg_1280 := supplied_path variants ''jpg'' 1280,
          jpg_1920 := supplied_path variants ''jpg'' 1920,
          webp_480 := supplied_path variants ''webp'' 480,
          webp_960 := supplied_path variants ''webp'' 960,
          webp_1280 := supplied_path variants ''webp'' 1280,
          webp_1920 := supplied_path variants ''webp'' 1920,
          avif_480 := supplied_path variants ''avif'' 480,
          avif_960 := supplied_path variants ''avif'' 960,
          avif_1280 := supplied_path variants ''avif'' 1280,
          avif_1920 := supplied_path variants ''avif'' 1920\<rparr>, None)"
proof -
  from assms obtain j w a where
    j: "py_or (dict_get variants (KStr ''jpg'')) (PDict []) = PDict j"
       "\<forall>bp. dict_get j (KInt bp) = supplied_path variants ''jpg'' bp" and
    w: "py_or (dict_get variants (KStr ''webp'')) (PDict []) = PDict w"
       "\<forall>bp. dict_get w (KInt bp) = supplied_path variants ''webp'' bp" and
    a: "py_or (dict_get variants (KStr ''avif'')) (PDict []) = PDict a"
       "\<forall>bp. dict_get a (KInt bp) = supplied_path variants ''avif'' bp"
    unfolding well_shaped_def using nested_ok_dict by (metis list.set_intros)
  show ?thesis
    by (simp add: set_variants_def loop_body_dict[OF j(1)] loop_body_dict[OF w(1)]
        loop_body_dict[OF a(1)] j(2) w(2) a(2) and_then_def setattr_def
        dict_get_supplied_value)
qed

lemma well_shaped_update_None:
  "well_shaped variants \<Longrightarrow> well_shaped (AList.update k PNone variants)"
  by (simp add: well_shaped_def dict_get_def update_conv' nested_ok_def)

text \<open>Each of the three encodings either has a dict after \<open>or {}\<close> or makes the loop raise.\<close>

lemma three_cases:
  "((\<exists>kv. py_or (dict_get variants (KStr ''jpg'')) (PDict []) = PDict kv) \<or>
    (\<forall>k. py_get (py_or (dict_get variants (KStr ''jpg'')) (PDict [])) k = Inl AttributeError)) \<and>
   ((\<exists>kv. py_or (dict_get variants (KStr ''webp'')) (PDict []) = PDict kv) \<or>
    (\<forall>k. py_get (py_or (dict_get variants (KStr ''webp'')) (PDict [])) k = Inl AttributeError)) \<and>
   ((\<exists>kv. py_or (dict_get variants (KStr ''avif'')) (PDict []) = PDict kv) \<or>
    (\<forall>k. py_get (py_or (dict_get variants (KStr ''avif'')) (PDict [])) k = Inl AttributeError))"
  using py_or_cases by blast

text \<open>
  Claim C1. For every Asset and every input mapping of the shape the specification
  describes, \<open>set_variants\<close> returns normally and afterwards width, height and the
  twelve variant-path fields are exactly the values the input supplies, null where the
  key (or the encoding's nested mapping) is absent, whatever the fields held before.
  In particular, after a call with \<open>{jpg: {480: a}}\<close> the field \<open>jpg_480\<close> is \<open>a\<close>, and
  after a following call with \<open>{webp: {960: b}}\<close> it is null.
\<close>

theorem set_variants_full_overwrite:
  assumes "well_shaped variants"
  shows "snd (set_variants self variants) = None \<and>
    width (fst (set_variants self variants)) = supplied_value variants ''width'' \<and>
    height (fst (set_variants self variants)) = supplied_value variants ''height'' \<and>
    jpg_480 (fst (set_variants self variants)) = supplied_path variants ''jpg'' 480 \<and>
    jpg_960 (fst (set_variants self variants)) = supplied_path variants ''jpg'' 960 \<and>
    jpg_1280 (fst (set_variants self variants)) = supplied_path variants ''jpg'' 1280 \<and>
    jpg_1920 (fst (set_variants self variants)) = supplied_path variants ''jpg'' 1920 \<and>
    webp_480 (fst (set_variants self variants)) = supplied_path variants ''webp'' 480 \<and>
    webp_960 (fst (set_variants self variants)) = supplied_path variants ''webp'' 960 \<and>
    webp_1280 (fst (set_variants self variants)) = supplied_path variants ''webp'' 1280 \<and>
    webp_1920 (fst (set_variants self variants)) = supplied_path variants ''webp'' 1920 \<and>
    avif_480 (fst (set_variants self variants)) = supplied_path variants ''avif'' 480 \<and>
    avif_960 (fst (set_variants self variants)) = supplied_path variants ''avif'' 960 \<and>
    avif_1280 (fst (set_variants self variants)) = supplied_path variants ''avif'' 1280 \<and>
    avif_1920 (fst (set_variants self variants)) = supplied_path variants ''avif'' 1920 \<and>
    jpg_480 (fst (set_variants self [(KStr ''jpg'', PDict [(KInt 480, PStr a)])])) = PStr a \<and>
    jpg_480 (fst (set_variants
        (fst (set_variants self [(KStr ''jpg'', PDict [(KInt 480, PStr a)])]))
        [(KStr ''webp'', PDict [(KInt 960, PStr b)])])) = PNone"
proof -
  have ex1: "well_shaped [(KStr ''jpg'', PDict [(KInt 480, PStr a)])]"
    by (simp add: well_shaped_def nested_ok_def dict_get_def)
  have ex2: "well_shaped [(KStr ''webp'', PDict [(KInt 960, PStr b)])]"
    by (simp add: well_shaped_def nested_ok_def dict_get_def)
  show ?thesis
    by (simp add: set_variants_well_shaped[OF assms] set_variants_well_shaped[OF ex1]
        set_variants_well_shaped[OF ex2] supplied_path_def)
qed

theorem set_variants_full_overwrite_witness:
  "well_shaped [(KStr ''width'', PInt 800), (KStr ''height'', PInt 600),
                (KStr ''jpg'', PDict [(KInt 480, PStr ''x.jpg'')])] \<and>
   (let r = set_variants (Asset_init\<lparr>width := PInt 1, jpg_960 := PStr ''old.jpg'',
                                      webp_480 := PStr ''old.webp''\<rparr>)
              [(KStr ''width'', PInt 800), (KStr ''height'', PInt 600),
               (KStr ''jpg'', PDict [(KInt 480, PStr ''x.jpg'')])]
    in snd r = None \<and> width (fst r) = PInt 800 \<and> height (fst r) = PInt 600 \<and>
       jpg_480 (fst r) = PStr ''x.jpg'' \<and> jpg_960 (fst r) = PNone \<and>
       webp_480 (fst r) = PNone)"
proof -
  let ?v = "[(KStr ''width'', PInt 800), (KStr ''height'', PInt 600),
             (KStr ''jpg'', PDict [(KInt 480, PStr ''x.jpg'')])]"
  have h: "well_shaped ?v"
    by (simp add: well_shaped_def nested_ok_def dict_get_def)
  show ?thesis
    using h set_variants_full_overwrite[OF h,
        of "Asset_init\<lparr>width := PInt 1, jpg_960 := PStr ''old.jpg'',
                        webp_480 := PStr ''old.webp''\<rparr>"]
    by (simp add: Let_def supplied_value_def supplied_path_def)
qed

text \<open>
  Claim C2. \<open>set_variants\<close> is idempotent: a second call with the same input leaves
  the Asset (all its fields, width, height and the twelve variant fields among them)
  and the outcome of the call as the first call left them. This holds for every input,
  also one on which the call raises.
\<close>

theorem set_variants_idempotent:
  "set_variants (fst (set_variants self variants)) variants = set_variants self variants"
  using three_cases[of variants]
  by (auto simp: set_variants_def loop_body_dict loop_body_raise and_then_def setattr_def)

text \<open>
  Claim C9. \<open>set_variants\<close> writes only width, height and the twelve variant-path
  fields: id, album_id, sort_order, filename, original_name, mime_type, size, lqip,
  gdrive_file_id, gdrive_thumb_id, is_hidden and created_at are as before the call, for
  every input mapping, whatever keys it contains.
\<close>

theorem set_variants_frame:
  "Asset_id (fst (set_variants self variants)) = Asset_id self \<and>
   Asset_album_id (fst (set_variants self variants)) = Asset_album_id self \<and>
   sort_order (fst (set_variants self variants)) = sort_order self \<and>
   filename (fst (set_variants self variants)) = filename self \<and>
   original_name (fst (set_variants self variants)) = original_name self \<and>
   mime_type (fst (set_variants self variants)) = mime_type self \<and>
   Asset_size (fst (set_variants self variants)) = Asset_size self \<and>
   lqip (fst (set_variants self variants)) = lqip self \<and>
   gdrive_file_id (fst (set_variants self variants)) = gdrive_file_id self \<and>
   gdrive_thumb_id (fst (set_variants self variants)) = gdrive_thumb_id self \<and>
   is_hidden (fst (set_variants self variants)) = is_hidden self \<and>
   Asset_created_at (fst (set_variants self variants)) = Asset_created_at self"
  using three_cases[of variants]
  by (auto simp: set_variants_def loop_body_dict loop_body_raise and_then_def setattr_def)

text \<open>
  Claim C10. An input in which an encoding key is present but mapped to None gives
  exactly the same result as the input with that key absent; on well-shaped input the
  call returns normally and the four breakpoint fields of that encoding are null.
\<close>

theorem set_variants_None_as_absent:
  "set_variants self (AList.update (KStr ext) PNone variants) =
     set_variants self (AList.delete (KStr ext) variants) \<and>
   (well_shaped variants \<longrightarrow>
     (let r = set_variants self (AList.update (KStr ''jpg'') PNone variants)
      in snd r = None \<and> jpg_480 (fst r) = PNone \<and> jpg_960 (fst r) = PNone \<and>
         jpg_1280 (fst r) = PNone \<and> jpg_1920 (fst r) = PNone) \<and>
     (let r = set_variants self (AList.update (KStr ''webp'') PNone variants)
      in snd r = None \<and> webp_480 (fst r) = PNone \<and> webp_960 (fst r) = PNone \<and>
         webp_1280 (fst r) = PNone \<and> webp_1920 (fst r) = PNone) \<and>
     (let r = set_variants self (AList.update (KStr ''avif'') PNone variants)
      in snd r = None \<and> avif_480 (fst r) = PNone \<and> avif_960 (fst r) = PNone \<and>
         avif_1280 (fst r) = PNone \<and> avif_1920 (fst r) = PNone))"
proof -
  have same: "set_variants self (AList.update (KStr ext) PNone variants) =
     set_variants self (AList.delete (KStr ext) variants)"
    by (simp add: set_variants_def dict_get_update_None for_ext_update_None)
  have null: "supplied_path (AList.update (KStr e) PNone variants) e bp = PNone" for e bp
    by (simp add: supplied_path_def update_conv')
  show ?thesis
    using same
    by (simp add: Let_def set_variants_well_shaped[OF well_shaped_update_None] null)
qed

theorem set_variants_None_as_absent_witness:
  "well_shaped [(KStr ''webp'', PDict [(KInt 960, PStr ''b'')])] \<and>
   set_variants (Asset_init\<lparr>jpg_480 := PStr ''a''\<rparr>)
       [(KStr ''webp'', PDict [(KInt 960, PStr ''b'')]), (KStr ''jpg'', PNone)] =
     set_variants (Asset_init\<lparr>jpg_480 := PStr ''a''\<rparr>)
       [(KStr ''webp'', PDict [(KInt 960, PStr ''b'')])] \<and>
   jpg_480 (fst (set_variants (Asset_init\<lparr>jpg_480 := PStr ''a''\<rparr>)
       [(KStr ''webp'', PDict [(KInt 960, PStr ''b'')]), (KStr ''jpg'', PNone)])) = PNone"
proof -
  let ?v = "[(KStr ''webp'', PDict [(KInt 960, PStr ''b'')])]"
  have h: "well_shaped ?v"
    by (simp add: well_shaped_def nested_ok_def dict_get_def)
  note t = set_variants_None_as_absent[of "Asset_init\<lparr>jpg_480 := PStr ''a''\<rparr>" "''jpg''" ?v]
  have same: "set_variants (Asset_init\<lparr>jpg_480 := PStr ''a''\<rparr>) (?v @ [(KStr ''jpg'', PNone)]) =
      set_variants (Asset_init\<lparr>jpg_480 := PStr ''a''\<rparr>) ?v"
    using t[THEN conjunct1] by simp
  have null: "jpg_480 (fst (set_variants (Asset_init\<lparr>jpg_480 := PStr ''a''\<rparr>)
      (?v @ [(KStr ''jpg'', PNone)]))) = PNone"
    using t[THEN conjunct2, THEN mp, OF h] by (simp add: Let_def)
  show ?thesis
    using h same null by simp
qed

section \<open>Properties of the store\<close>

text \<open>
  The actions the three foreign keys declare, and what a delete does under them.
\<close>

lemma declared_actions_eq:
  "declared_actions = \<lparr>on_assets_album_id = CASCADE, on_share_links_album_id = CASCADE,
     on_albums_cover_asset_id = SET_NULL\<rparr>"
  by (simp add: declared_actions_def fk_action_def Asset_def ShareLink_def Album_def
      Column_def ForeignKey_def referential_action_def)

lemma delete_assets_declared:
  "delete_assets declared_actions P s =
    Inr (if filter P (assets s) = [] then s
         else s\<lparr>assets := filter (\<lambda>x. \<not> P x) (assets s),
                albums := map (\<lambda>a. if refers (cover_asset_id a)
                                          (List.map_filter Asset_id (filter P (assets s)))
                                     then a\<lparr>cover_asset_id := None\<rparr> else a) (albums s)\<rparr>)"
  by (subst delete_assets.simps) (simp add: declared_actions_eq Let_def)

lemma delete_albums_declared:
  "delete_albums declared_actions P s =
    (if filter P (albums s) = [] then Inr s
     else delete_assets declared_actions
            (\<lambda>x. refers (Asset_album_id x) (List.map_filter Album_id (filter P (albums s))))
            (s\<lparr>albums := filter (\<lambda>a. \<not> P a) (albums s),
               share_links := filter (\<lambda>l. \<not> refers (ShareLink_album_id l)
                    (List.map_filter Album_id (filter P (albums s)))) (share_links s)\<rparr>))"
  by (subst delete_albums.simps) (simp add: declared_actions_eq Let_def on_delete_leaf_def)

lemma refers_iff: "refers v keys \<longleftrightarrow> (\<exists>k \<in> set keys. v = Some k)"
  by (cases v) auto

lemma set_map_filter:
  "set (List.map_filter f xs) = {y. \<exists>x \<in> set xs. f x = Some y}"
  by (induction xs) (auto split: option.splits)

lemma refers_album_keys:
  "refers v (List.map_filter Album_id (filter (\<lambda>a. Album_id a = Some k) rows)) \<longleftrightarrow>
     filter (\<lambda>a. Album_id a = Some k) rows \<noteq> [] \<and> v = Some k"
  by (auto simp: refers_iff set_map_filter filter_empty_conv)

lemma refers_asset_keys:
  "refers v (List.map_filter Asset_id (filter (\<lambda>a. Asset_id a = Some k) rows)) \<longleftrightarrow>
     filter (\<lambda>a. Asset_id a = Some k) rows \<noteq> [] \<and> v = Some k"
  by (auto simp: refers_iff set_map_filter filter_empty_conv)

lemma delete_album_eq:
  "delete_album k s =
    Inr (if filter (\<lambda>a. Album_id a = Some k) (albums s) = [] then s
         else if filter (\<lambda>x. Asset_album_id x = Some k) (assets s) = []
         then s\<lparr>albums := filter (\<lambda>a. Album_id a \<noteq> Some k) (albums s),
                share_links := filter (\<lambda>l. ShareLink_album_id l \<noteq> Some k) (share_links s)\<rparr>
         else s\<lparr>albums := map (\<lambda>a. if refers (cover_asset_id a)
                       (List.map_filter Asset_id
                          (filter (\<lambda>x. Asset_album_id x = Some k) (assets s)))
                     then a\<lparr>cover_asset_id := None\<rparr> else a)
                   (filter (\<lambda>a. Album_id a \<noteq> Some k) (albums s)),
                assets := filter (\<lambda>x. Asset_album_id x \<noteq> Some k) (assets s),
                share_links := filter (\<lambda>l. ShareLink_album_id l \<noteq> Some k) (share_links s)\<rparr>)"
  by (simp add: delete_album_def delete_albums_declared delete_assets_declared
      refers_album_keys)

lemma delete_asset_eq:
  "delete_asset k s =
    Inr (if filter (\<lambda>x. Asset_id x = Some k) (assets s) = [] then s
         else s\<lparr>assets := filter (\<lambda>x. Asset_id x \<noteq> Some k) (assets s),
                albums := map (\<lambda>a. if cover_asset_id a = Some k
                                     then a\<lparr>cover_asset_id := None\<rparr> else a) (albums s)\<rparr>)"
  by (simp add: delete_asset_def delete_assets_declared refers_asset_keys)

text \<open>
  Claim C3. For every stored Album A, deleting A succeeds and in that one step removes
  every Asset row and every ShareLink row whose album_id is A's id, and no other
  Asset or ShareLink row: afterwards no Asset, no ShareLink and no Album row with that
  id is left.
\<close>

theorem delete_album_cascades:
  assumes "A \<in> set (albums s)" and "Album_id A = Some k"
  shows "case delete_album k s of
           Inl e \<Rightarrow> False
         | Inr s' \<Rightarrow>
             filter (\<lambda>x. Asset_album_id x = Some k) (assets s') = [] \<and>
             filter (\<lambda>l. ShareLink_album_id l = Some k) (share_links s') = [] \<and>
             filter (\<lambda>a. Album_id a = Some k) (albums s') = [] \<and>
             assets s' = filter (\<lambda>x. Asset_album_id x \<noteq> Some k) (assets s) \<and>
             share_links s' = filter (\<lambda>l. ShareLink_album_id l \<noteq> Some k) (share_links s)"
proof -
  from assms have stored: "filter (\<lambda>a. Album_id a = Some k) (albums s) \<noteq> []"
    by (auto simp: filter_empty_conv)
  have unchanged: "filter (\<lambda>x. Asset_album_id x \<noteq> Some k) (assets s) = assets s"
    if "filter (\<lambda>x. Asset_album_id x = Some k) (assets s) = []"
    using that by (auto simp: filter_empty_conv filter_id_conv)
  show ?thesis
    using stored unchanged
    by (auto simp: delete_album_eq filter_empty_conv)
qed

theorem delete_album_cascades_witness:
  "\<lparr>Album_id = Some 1, title = Some ''Trip'', photographer = None,
     photographer_url = None, event_date = None, Album_created_at = Some 0,
     cover_asset_id = Some 10\<rparr>
    \<in> set (albums
      \<lparr>albums =
         [\<lparr>Album_id = Some 1, title = Some ''Trip'', photographer = None,
            photographer_url = None, event_date = None, Album_created_at = Some 0,
            cover_asset_id = Some 10\<rparr>,
          \<lparr>Album_id = Some 2, title = Some ''Home'', photographer = None,
            photographer_url = None, event_date = None, Album_created_at = Some 0,
            cover_asset_id = Some 10\<rparr>],
       assets =
         [Asset_init\<lparr>Asset_id := Some 10, Asset_album_id := Some 1\<rparr>,
          Asset_init\<lparr>Asset_id := Some 20, Asset_album_id := Some 2\<rparr>,
          Asset_init\<lparr>Asset_id := Some 11, Asset_album_id := Some 1\<rparr>],
       share_links =
         [\<lparr>ShareLink_id = Some 5, ShareLink_album_id = Some 1, slug = Some ''s1'',
            expires_at = None, password_hash = None, allow_zip = Some True,
            ShareLink_created_at = Some 0\<rparr>,
          \<lparr>ShareLink_id = Some 6, ShareLink_album_id = Some 2, slug = Some ''s2'',
            expires_at = None, password_hash = None, allow_zip = Some True,
            ShareLink_created_at = Some 0\<rparr>],
       likes = []\<rparr>) \<and>
   delete_album 1
      \<lparr>albums =
         [\<lparr>Album_id = Some 1, title = Some ''Trip'', photographer = None,
            photographer_url = None, event_date = None, Album_created_at = Some 0,
            cover_asset_id = Some 10\<rparr>,
          \<lparr>Album_id = Some 2, title = Some ''Home'', photographer = None,
            photographer_url = None, event_date = None, Album_created_at = Some 0,
            cover_asset_id = Some 10\<rparr>],
       assets =
         [Asset_init\<lparr>Asset_id := Some 10, Asset_album_id := Some 1\<rparr>,
          Asset_init\<lparr>Asset_id := Some 20, Asset_album_id := Some 2\<rparr>,
          Asset_init\<lparr>Asset_id := Some 11, Asset_album_id := Some 1\<rparr>],
       share_links =
         [\<lparr>ShareLink_id = Some 5, ShareLink_album_id = Some 1, slug = Some ''s1'',
            expires_at = None, password_hash = None, allow_zip = Some True,
            ShareLink_created_at = Some 0\<rparr>,
          \<lparr>ShareLink_id = Some 6, ShareLink_album_id = Some 2, slug = Some ''s2'',
            expires_at = None, password_hash = None, allow_zip = Some True,
            ShareLink_created_at = Some 0\<rparr>],
       likes = []\<rparr> =
    Inr \<lparr>albums =
         [\<lparr>Album_id = Some 2, title = Some ''Home'', photographer = None,
            photographer_url = None, event_date = None, Album_created_at = Some 0,
            cover_asset_id = None\<rparr>],
       assets = [Asset_init\<lparr>Asset_id := Some 20, Asset_album_id := Some 2\<rparr>],
       share_links =
         [\<lparr>ShareLink_id = Some 6, ShareLink_album_id = Some 2, slug = Some ''s2'',
            expires_at = None, password_hash = None, allow_zip = Some True,
            ShareLink_created_at = Some 0\<rparr>],
       likes = []\<rparr>"
proof -
  let ?A = "\<lparr>Album_id = Some 1, title = Some ''Trip'', photographer = None,
     photographer_url = None, event_date = None, Album_created_at = Some 0,
     cover_asset_id = Some 10\<rparr>"
  let ?s = "\<lparr>albums =
         [?A,
          \<lparr>Album_id = Some 2, title = Some ''Home'', photographer = None,
            photographer_url = None, event_date = None, Album_created_at = Some 0,
            cover_asset_id = Some 10\<rparr>],
       assets =
         [Asset_init\<lparr>Asset_id := Some 10, Asset_album_id := Some 1\<rparr>,
          Asset_init\<lparr>Asset_id := Some 20, Asset_album_id := Some 2\<rparr>,
          Asset_init\<lparr>Asset_id := Some 11, Asset_album_id := Some 1\<rparr>],
       share_links =
         [\<lparr>ShareLink_id = Some 5, ShareLink_album_id = Some 1, slug = Some ''s1'',
            expires_at = None, password_hash = None, allow_zip = Some True,
            ShareLink_created_at = Some 0\<rparr>,
          \<lparr>ShareLink_id = Some 6, ShareLink_album_id = Some 2, slug = Some ''s2'',
            expires_at = None, password_hash = None, allow_zip = Some True,
            ShareLink_created_at = Some 0\<rparr>],
       likes = []\<rparr>"
  have h1: "?A \<in> set (albums ?s)" by simp
  have h2: "Album_id ?A = Some 1" by simp
  have run: "delete_album 1 ?s =
    Inr \<lparr>albums =
         [\<lparr>Album_id = Some 2, title = Some ''Home'', photographer = None,
            photographer_url = None, event_date = None, Album_created_at = Some 0,
            cover_asset_id = None\<rparr>],
       assets = [Asset_init\<lparr>Asset_id := Some 20, Asset_album_id := Some 2\<rparr>],
       share_links =
         [\<lparr>ShareLink_id = Some 6, ShareLink_album_id = Some 2, slug = Some ''s2'',
            expires_at = None, password_hash = None, allow_zip = Some True,
            ShareLink_created_at = Some 0\<rparr>],
       likes = []\<rparr>"
    by (simp add: delete_album_def delete_albums.simps delete_assets.simps
        declared_actions_eq on_delete_leaf_def Asset_init_def)
  show ?thesis
    using delete_album_cascades[OF h1 h2] h1 run by simp
qed

text \<open>
  Claim C4. For every stored Asset X that some stored Album references through
  cover_asset_id, deleting X succeeds (it is not blocked), removes X, keeps every
  Album row and sets the cover_asset_id of the referencing Album (of every Album that
  referenced X) to null.
\<close>

theorem delete_asset_sets_cover_null:
  assumes "A \<in> set (albums s)" and "cover_asset_id A = Some x"
    and "X \<in> set (assets s)" and "Asset_id X = Some x"
  shows "case delete_asset x s of
           Inl e \<Rightarrow> False
         | Inr s' \<Rightarrow>
             filter (\<lambda>y. Asset_id y = Some x) (assets s') = [] \<and>
             albums s' = map (\<lambda>a. if cover_asset_id a = Some x
                                   then a\<lparr>cover_asset_id := None\<rparr> else a) (albums s) \<and>
             A\<lparr>cover_asset_id := None\<rparr> \<in> set (albums s') \<and>
             length (albums s') = length (albums s) \<and>
             filter (\<lambda>a. cover_asset_id a = Some x) (albums s') = [] \<and>
             share_links s' = share_links s"
proof -
  from assms(3,4) have stored: "filter (\<lambda>y. Asset_id y = Some x) (assets s) \<noteq> []"
    by (auto simp: filter_empty_conv)
  have kept: "A\<lparr>cover_asset_id := None\<rparr> \<in>
      set (map (\<lambda>a. if cover_asset_id a = Some x then a\<lparr>cover_asset_id := None\<rparr> else a)
            (albums s))"
    using assms(1,2) by (auto simp: image_iff intro!: bexI[of _ A])
  show ?thesis
    using stored kept by (auto simp: delete_asset_eq filter_empty_conv)
qed

theorem delete_asset_sets_cover_null_witness:
  "delete_asset 10
      \<lparr>albums =
         [\<lparr>Album_id = Some 1, title = Some ''Trip'', photographer = None,
            photographer_url = None, event_date = None, Album_created_at = Some 0,
            cover_asset_id = Some 10\<rparr>],
       assets =
         [Asset_init\<lparr>Asset_id := Some 10, Asset_album_id := Some 1\<rparr>,
          Asset_init\<lparr>Asset_id := Some 11, Asset_album_id := Some 1\<rparr>],
       share_links = [], likes = []\<rparr> =
    Inr \<lparr>albums =
         [\<lparr>Album_id = Some 1, title = Some ''Trip'', photographer = None,
            photographer_url = None, event_date = None, Album_created_at = Some 0,
            cover_asset_id = None\<rparr>],
       assets = [Asset_init\<lparr>Asset_id := Some 11, Asset_album_id := Some 1\<rparr>],
       share_links = [], likes = []\<rparr>"
proof -
  let ?A = "\<lparr>Album_id = Some 1, title = Some ''Trip'', photographer = None,
     photographer_url = None, event_date = None, Album_created_at = Some 0,
     cover_asset_id = Some 10\<rparr>"
  let ?X = "Asset_init\<lparr>Asset_id := Some 10, Asset_album_id := Some 1\<rparr>"
  let ?s = "\<lparr>albums = [?A],
       assets = [?X, Asset_init\<lparr>Asset_id := Some 11, Asset_album_id := Some 1\<rparr>],
       share_links = [], likes = []\<rparr>"
  have h1: "?A \<in> set (albums ?s)" by simp
  have h2: "cover_asset_id ?A = Some 10" by simp
  have h3: "?X \<in> set (assets ?s)" by simp
  have h4: "Asset_id ?X = Some 10" by simp
  have run: "delete_asset 10 ?s =
    Inr \<lparr>albums = [?A\<lparr>cover_asset_id := None\<rparr>],
       assets = [Asset_init\<lparr>Asset_id := Some 11, Asset_album_id := Some 1\<rparr>],
       share_links = [], likes = []\<rparr>"
    by (simp add: delete_asset_def delete_assets.simps declared_actions_eq Asset_init_def)
  show ?thesis
    using delete_asset_sets_cover_null[OF h1 h2 h3 h4] run by simp
qed

text \<open>The constraints the declarations put on an insert, column by column.\<close>

lemma not_null_violation_Asset:
  "not_null_violation Asset row =
    (if row ''id'' = PNone then Some (NotNull ''assets'' ''id'')
     else if row ''filename'' = PNone then Some (NotNull ''assets'' ''filename'')
     else if row ''original_name'' = PNone then Some (NotNull ''assets'' ''original_name'')
     else None)"
  by (simp add: not_null_violation_def Asset_def Column_def nullable_def)

lemma unique_violation_Asset:
  "unique_violation Asset row stored =
    (if row ''id'' \<noteq> PNone \<and> list_ex (\<lambda>r. r ''id'' = row ''id'') stored
     then Some (Unique ''assets'' ''id'') else None)"
  by (simp add: unique_violation_def Asset_def Column_def)

lemma not_null_violation_ShareLink:
  "not_null_violation ShareLink row =
    (if row ''id'' = PNone then Some (NotNull ''share_links'' ''id'') else None)"
  by (simp add: not_null_violation_def ShareLink_def Column_def nullable_def)

lemma unique_violation_ShareLink:
  "unique_violation ShareLink row stored =
    (if row ''id'' \<noteq> PNone \<and> list_ex (\<lambda>r. r ''id'' = row ''id'') stored
     then Some (Unique ''share_links'' ''id'')
     else if row ''slug'' \<noteq> PNone \<and> list_ex (\<lambda>r. r ''slug'' = row ''slug'') stored
     then Some (Unique ''share_links'' ''slug'') else None)"
  by (simp add: unique_violation_def ShareLink_def Column_def)

lemma fold_max_ge: "(a::int) \<le> fold max keys a"
proof (induction keys arbitrary: a)
  case Nil
  show ?case by simp
next
  case (Cons k keys)
  have "a \<le> max k a" by simp
  also have "max k a \<le> fold max keys (max k a)" by (rule Cons.IH)
  finally show ?case by simp
qed

lemma fold_max_bound: "k \<in> set keys \<Longrightarrow> (k::int) \<le> fold max keys a"
proof (induction keys arbitrary: a)
  case Nil
  then show ?case by simp
next
  case (Cons x keys)
  show ?case
  proof (cases "k = x")
    case True
    have "x \<le> max x a" by simp
    also have "max x a \<le> fold max keys (max x a)" by (rule fold_max_ge)
    finally show ?thesis using True by simp
  next
    case False
    with Cons.prems have "k \<in> set keys" by simp
    then show ?thesis using Cons.IH by simp
  qed
qed

lemma fresh_id_new: "fresh_id keys \<notin> set keys"
proof
  assume "fresh_id keys \<in> set keys"
  then have "fresh_id keys \<le> fold max keys 0" by (rule fold_max_bound)
  then show False by (simp add: fresh_id_def)
qed

lemma of_int_opt_eq [simp]:
  "of_int_opt v = PNone \<longleftrightarrow> v = None" "of_int_opt v = PInt n \<longleftrightarrow> v = Some n"
  by (cases v; simp)+

lemma of_str_opt_eq [simp]:
  "of_str_opt w = PNone \<longleftrightarrow> w = None" "of_str_opt w = PStr t \<longleftrightarrow> w = Some t"
  by (cases w; simp)+

lemma first_violation_simps [simp]:
  "first_violation [] = None"
  "first_violation (None # vs) = first_violation vs"
  "first_violation (Some v # vs) = Some v"
  by (simp_all add: first_violation_def)

lemma Asset_id_stored:
  "list_ex (\<lambda>r. r ''id'' = PInt n) (map Asset_getattr rows) \<longleftrightarrow>
     n \<in> set (List.map_filter Asset_id rows)"
  by (auto simp: list_ex_iff set_map_filter Asset_getattr_def)

lemma ShareLink_id_stored:
  "list_ex (\<lambda>r. r ''id'' = PInt n) (map ShareLink_getattr rows) \<longleftrightarrow>
     n \<in> set (List.map_filter ShareLink_id rows)"
  by (auto simp: list_ex_iff set_map_filter ShareLink_getattr_def)

lemma ShareLink_slug_stored:
  "list_ex (\<lambda>r. r ''slug'' = PStr v) (map ShareLink_getattr rows) \<longleftrightarrow>
     v \<in> set (List.map_filter slug rows)"
  by (auto simp: list_ex_iff set_map_filter ShareLink_getattr_def)

text \<open>What an insert answers, case by case, in the order the constraints are checked.\<close>

lemma insert_asset_eq:
  "insert_asset now r s =
    (if filename r = None then Inl (IntegrityError (NotNull ''assets'' ''filename''))
     else if original_name r = None
     then Inl (IntegrityError (NotNull ''assets'' ''original_name''))
     else if refers (Asset_id r) (List.map_filter Asset_id (assets s))
     then Inl (IntegrityError (Unique ''assets'' ''id''))
     else if Asset_album_id r \<noteq> None \<and>
             \<not> refers (Asset_album_id r) (List.map_filter Album_id (albums s))
     then Inl (IntegrityError (ForeignKeyViolation ''assets'' ''album_id''))
     else Inr (s\<lparr>assets := assets s @
            [r\<lparr>Asset_id := or_default (Asset_id r) (fresh_id (List.map_filter Asset_id (assets s))),
               is_hidden := or_default (is_hidden r) False,
               Asset_created_at := or_default (Asset_created_at r) now\<rparr>]\<rparr>))"
proof (cases "Asset_id r")
  case None
  then show ?thesis
    by (simp add: insert_asset_def Let_def not_null_violation_Asset unique_violation_Asset
        Asset_getattr_def or_default_def Asset_id_stored fresh_id_new
        reference_violation_def)
next
  case (Some n)
  then show ?thesis
    by (simp add: insert_asset_def Let_def not_null_violation_Asset unique_violation_Asset
        Asset_getattr_def or_default_def Asset_id_stored reference_violation_def)
qed

lemma insert_share_link_eq:
  "insert_share_link now r s =
    (if refers (ShareLink_id r) (List.map_filter ShareLink_id (share_links s))
     then Inl (IntegrityError (Unique ''share_links'' ''id''))
     else if (case slug r of None \<Rightarrow> False
              | Some v \<Rightarrow> v \<in> set (List.map_filter slug (share_links s)))
     then Inl (IntegrityError (Unique ''share_links'' ''slug''))
     else if ShareLink_album_id r \<noteq> None \<and>
             \<not> refers (ShareLink_album_id r) (List.map_filter Album_id (albums s))
     then Inl (IntegrityError (ForeignKeyViolation ''share_links'' ''album_id''))
     else Inr (s\<lparr>share_links := share_links s @
            [r\<lparr>ShareLink_id := or_default (ShareLink_id r)
                   (fresh_id (List.map_filter ShareLink_id (share_links s))),
               allow_zip := or_default (allow_zip r) True,
               ShareLink_created_at := or_default (ShareLink_created_at r) now\<rparr>]\<rparr>))"
proof (cases "ShareLink_id r"; cases "slug r")
  fix n v
  show ?thesis if "ShareLink_id r = None" "slug r = None"
    using that
    by (simp add: insert_share_link_def Let_def not_null_violation_ShareLink
        unique_violation_ShareLink ShareLink_getattr_def or_default_def ShareLink_id_stored
        fresh_id_new reference_violation_def)
  show ?thesis if "ShareLink_id r = None" "slug r = Some v"
    using that
    by (simp add: insert_share_link_def Let_def not_null_violation_ShareLink
        unique_violation_ShareLink ShareLink_getattr_def or_default_def ShareLink_id_stored
        ShareLink_slug_stored fresh_id_new reference_violation_def)
  show ?thesis if "ShareLink_id r = Some n" "slug r = None"
    using that
    by (simp add: insert_share_link_def Let_def not_null_violation_ShareLink
        unique_violation_ShareLink ShareLink_getattr_def or_default_def ShareLink_id_stored
        reference_violation_def)
  show ?thesis if "ShareLink_id r = Some n" "slug r = Some v"
    using that
    by (simp add: insert_share_link_def Let_def not_null_violation_ShareLink
        unique_violation_ShareLink ShareLink_getattr_def or_default_def ShareLink_id_stored
        ShareLink_slug_stored reference_violation_def)
qed

text \<open>
  Claim C6, as stated: creating an Asset without an album_id is rejected as a
  not-null violation. It fails: the column \<open>album_id\<close> of \<open>Asset\<close> is declared without
  \<open>nullable=False\<close> (unlike \<open>filename\<close> and \<open>original_name\<close>), and an Asset that has
  the two names and no album_id is stored.
\<close>

theorem insert_asset_without_album_id_counterexample:
  "Asset_album_id (Asset_init\<lparr>filename := Some ''a.jpg'', original_name := Some ''a.jpg''\<rparr>) = None \<and>
   insert_asset 0 (Asset_init\<lparr>filename := Some ''a.jpg'', original_name := Some ''a.jpg''\<rparr>)
      empty_db =
    Inr (empty_db\<lparr>assets :=
      [Asset_init\<lparr>Asset_id := Some 1, Asset_album_id := None,
         filename := Some ''a.jpg'', original_name := Some ''a.jpg'',
         is_hidden := Some False, Asset_created_at := Some 0\<rparr>]\<rparr>)"
  by (simp add: insert_asset_def Let_def not_null_violation_def unique_violation_def
      reference_violation_def Asset_def Column_def nullable_def Asset_getattr_def
      Asset_init_def empty_db_def or_default_def fresh_id_def)

text \<open>
  Claim C6, amended. \<open>Asset.album_id\<close> is an optional reference: creating an Asset
  without an album_id is never rejected as a not-null violation of album_id, and with
  the two names present and a system-assigned key it is accepted and stored with a
  null album_id. The not-null violations surfaced to the caller are those of
  \<open>filename\<close> and \<open>original_name\<close>. An accepted Asset that has an album_id refers to
  an Album stored at that moment.
\<close>

theorem insert_asset_album_id_optional:
  "insert_asset now r s \<noteq> Inl (IntegrityError (NotNull ''assets'' ''album_id'')) \<and>
   (Asset_album_id r = None \<longrightarrow> Asset_id r = None \<longrightarrow>
    filename r \<noteq> None \<longrightarrow> original_name r \<noteq> None \<longrightarrow>
      insert_asset now r s =
        Inr (s\<lparr>assets := assets s @
          [r\<lparr>Asset_id := Some (fresh_id (List.map_filter Asset_id (assets s))),
             is_hidden := or_default (is_hidden r) False,
             Asset_created_at := or_default (Asset_created_at r) now\<rparr>]\<rparr>)) \<and>
   (filename r = None \<longrightarrow>
      insert_asset now r s = Inl (IntegrityError (NotNull ''assets'' ''filename''))) \<and>
   (filename r \<noteq> None \<longrightarrow> original_name r = None \<longrightarrow>
      insert_asset now r s = Inl (IntegrityError (NotNull ''assets'' ''original_name''))) \<and>
   (insert_asset now r s = Inr s' \<longrightarrow> Asset_album_id r = Some k \<longrightarrow>
      k \<in> set (List.map_filter Album_id (albums s)))"
  by (auto simp: insert_asset_eq or_default_def split: if_splits)

theorem insert_asset_album_id_optional_witness:
  "insert_asset 7 (Asset_init\<lparr>filename := Some ''b.jpg'', original_name := Some ''B.JPG'',
                               sort_order := Some 2\<rparr>)
     (empty_db\<lparr>assets := [Asset_init\<lparr>Asset_id := Some 4, filename := Some ''a.jpg'',
                                         original_name := Some ''a.jpg''\<rparr>]\<rparr>) =
    Inr (empty_db\<lparr>assets :=
      [Asset_init\<lparr>Asset_id := Some 4, filename := Some ''a.jpg'',
                   original_name := Some ''a.jpg''\<rparr>,
       Asset_init\<lparr>Asset_id := Some 5, filename := Some ''b.jpg'',
                   original_name := Some ''B.JPG'', sort_order := Some 2,
                   is_hidden := Some False, Asset_created_at := Some 7\<rparr>]\<rparr>) \<and>
   insert_asset 7 (Asset_init\<lparr>original_name := Some ''B.JPG''\<rparr>) empty_db =
    Inl (IntegrityError (NotNull ''assets'' ''filename''))"
  using insert_asset_album_id_optional[of 7
      "Asset_init\<lparr>filename := Some ''b.jpg'', original_name := Some ''B.JPG'',
                   sort_order := Some 2\<rparr>"
      "empty_db\<lparr>assets := [Asset_init\<lparr>Asset_id := Some 4, filename := Some ''a.jpg'',
                                         original_name := Some ''a.jpg''\<rparr>]\<rparr>"]
    insert_asset_album_id_optional[of 7 "Asset_init\<lparr>original_name := Some ''B.JPG''\<rparr>" empty_db]
  by (simp add: Asset_init_def empty_db_def or_default_def fresh_id_def)

end
